theory Spec2Isabelle
  imports Main
begin

section \<open>The expiring cache (package cache)\<close>

text \<open>
  The cache stores values of Go's dynamic type \<^verbatim>\<open>any\<close>. The model keeps the three
  kinds of dynamic value that the OTP service distinguishes: the nil interface value, a
  string, and a value of some other dynamic type (here an integer or a boolean), on which
  the type assertion \<^verbatim>\<open>.(string)\<close> panics.
\<close>

datatype go_any = AnyNil | AnyString string | AnyInt int | AnyBool bool

text \<open>
  The errors the two packages create. The messages of the source are:
  \<^item> \<open>ErrInvalidOTP\<close>: the package variable, "invalid OTP provided";
  \<^item> \<open>KeyCannotBeEmpty\<close>: \<^verbatim>\<open>errors.New("key cannot be empty")\<close> in \<^verbatim>\<open>Set\<close>;
  \<^item> \<open>ReaderError\<close>: whatever error the random source hands back;
  \<^item> \<open>FailedToGenerateRandom e\<close>: "failed to generate random number: e";
  \<^item> \<open>FailedToStoreOTP e\<close>: "failed to store OTP in cache: e";
  \<^item> \<open>OTPNotFound key\<close>: "OTP not found in cache for secret: key";
  \<^item> \<open>OTPDoesNotMatch key\<close>: "OTP does not match for secret: key".
\<close>

datatype go_error =
    ErrInvalidOTP
  | KeyCannotBeEmpty
  | ReaderError
  | FailedToGenerateRandom go_error
  | FailedToStoreOTP go_error
  | OTPNotFound string
  | OTPDoesNotMatch string

text \<open>A call either returns its results or panics.\<close>

datatype 'a outcome = Returns 'a | Panics

text \<open>
  \<^verbatim>\<open>type CacheEntry struct { Data any; Expiry int64 }\<close>.
  Unix time is an \<open>int\<close>: the cache only compares expiry instants with the clock, and
  a comparison of two \<^verbatim>\<open>int64\<close> values is the comparison of the integers they denote.
\<close>

record CacheEntry =
  Data :: go_any
  Expiry :: int

text \<open>
  \<^verbatim>\<open>func (c CacheEntry) IsExpired() bool { return c.Expiry < time.Now().Unix() }\<close>.
  The reading of the clock, \<^verbatim>\<open>time.Now().Unix()\<close>, is the parameter \<open>now\<close>.
\<close>

definition IsExpired :: "CacheEntry \<Rightarrow> int \<Rightarrow> bool" where
  "IsExpired c now = (Expiry c < now)"

text \<open>
  \<^verbatim>\<open>type CacheInstance struct { data map[string]CacheEntry; mu sync.RWMutex }\<close>.
  Every method holds the lock for its whole body, so a method is one atomic step on the
  map; the model is the sequential behaviour of these steps and leaves the lock out.
  A method that the source declares on the pointer receiver returns the instance it
  leaves behind.
\<close>

record CacheInstance =
  data :: "string \<rightharpoonup> CacheEntry"

text \<open>
  \<^verbatim>\<open>for key, entry := range c.data { if entry.IsExpired() { delete(c.data, key) } }\<close>.
  The range visits every entry once (deleting the entry under visit is allowed in Go), and
  \<^verbatim>\<open>IsExpired\<close> reads the clock anew for each entry: \<open>clock key\<close> is the reading taken
  when the scan visits \<open>key\<close>.
\<close>

definition RemoveExpiredEntries :: "CacheInstance \<Rightarrow> (string \<Rightarrow> int) \<Rightarrow> CacheInstance" where
  "RemoveExpiredEntries c clock =
     c\<lparr>data := (\<lambda>key. case data c key of
                          None \<Rightarrow> None
                        | Some entry \<Rightarrow> if IsExpired entry (clock key) then None else Some entry)\<rparr>"

definition Set :: "CacheInstance \<Rightarrow> string \<Rightarrow> go_any \<Rightarrow> int \<Rightarrow> go_error option \<times> CacheInstance" where
  "Set c key val expiration =
     (if key = [] then (Some KeyCannotBeEmpty, c)
      else (None, c\<lparr>data := (data c)(key \<mapsto> \<lparr>Data = val, Expiry = expiration\<rparr>)\<rparr>))"

definition Get :: "CacheInstance \<Rightarrow> int \<Rightarrow> string \<Rightarrow> (go_any \<times> bool) \<times> CacheInstance" where
  "Get c now key =
     (case data c key of
        None \<Rightarrow> ((AnyNil, False), c)
      | Some entry \<Rightarrow> if IsExpired entry now then ((AnyNil, False), c) else ((Data entry, True), c))"

definition Delete :: "CacheInstance \<Rightarrow> string \<Rightarrow> CacheInstance" where
  "Delete c key = c\<lparr>data := (data c)(key := None)\<rparr>"

definition Exists :: "CacheInstance \<Rightarrow> int \<Rightarrow> string \<Rightarrow> bool \<times> CacheInstance" where
  "Exists c now key =
     (case data c key of
        None \<Rightarrow> (False, c)
      | Some entry \<Rightarrow> (\<not> IsExpired entry now, c))"

definition Clear :: "CacheInstance \<Rightarrow> CacheInstance" where
  "Clear c = c\<lparr>data := Map.empty\<rparr>"

text \<open>The map a fresh instance starts with: \<^verbatim>\<open>make(map[string]CacheEntry)\<close>.\<close>

definition new_CacheInstance :: CacheInstance where
  "new_CacheInstance = \<lparr>data = Map.empty\<rparr>"

section \<open>The OTP service (package gootp)\<close>

subsection \<open>Machine arithmetic and formatting\<close>

text \<open>
  \<^verbatim>\<open>int64\<close> arithmetic wraps around silently in Go. A value is kept as the integer it
  denotes, and \<open>int64\<close> brings the exact result of an operation back into
  \<open>[-2^63, 2^63)\<close>.
\<close>

definition int64 :: "int \<Rightarrow> int" where
  "int64 x = (x + 9223372036854775808) mod 18446744073709551616 - 9223372036854775808"

text \<open>The decimal digits of a natural number, most significant first.\<close>

definition digit :: "nat \<Rightarrow> char" where
  "digit d = ''0123456789'' ! d"

fun digits :: "nat \<Rightarrow> string" where
  "digits n = (if n < 10 then [digit n] else digits (n div 10) @ [digit (n mod 10)])"

declare digits.simps [simp del]

text \<open>
  \<^verbatim>\<open>fmt.Sprintf("%0*d", w, v)\<close> for an \<^verbatim>\<open>int\<close> width \<open>w\<close> and an \<^verbatim>\<open>int64\<close> value
  \<open>v\<close>, after the fmt package: the sign comes first, then zeros up to the width, then
  the digits; a value wider than the width is printed in full. A negative width asks for
  left justification, which pads with blanks on the right, and a width beyond a million in
  absolute value is refused with a marker followed by the plain number.
\<close>

definition plain_d :: "int \<Rightarrow> string" where
  "plain_d v = (if v < 0 then CHR ''-'' # digits (nat (- v)) else digits (nat v))"

definition Sprintf_0d :: "int \<Rightarrow> int \<Rightarrow> string" where
  "Sprintf_0d w v =
     (if w > 1000000 \<or> w < - 1000000 then ''%!(BADWIDTH)'' @ plain_d v
      else if w < 0 then plain_d v @ replicate (nat (- w) - length (plain_d v)) CHR '' ''
      else if v < 0 then
        CHR ''-'' # replicate (nat w - 1 - length (digits (nat (- v)))) CHR ''0'' @ digits (nat (- v))
      else replicate (nat w - length (digits (nat v))) CHR ''0'' @ digits (nat v))"

subsection \<open>The service\<close>

text \<open>
  \<^verbatim>\<open>type otpServiceInstance struct { CacheService cache.Cache; Length int }\<close>.
  The cache behind \<^verbatim>\<open>CacheService\<close> is the \<open>CacheInstance\<close> above; being shared
  mutable state, it is passed to each call and handed back.
\<close>

record otpServiceInstance =
  Length :: int

text \<open>
  \<^verbatim>\<open>NewService\<close>: a length below 1 becomes 6. (The other default, the process-wide
  cache of \<^verbatim>\<open>GetCache\<close>, is a fresh instance with a background sweep.)
\<close>

definition NewService :: "int \<Rightarrow> otpServiceInstance" where
  "NewService conf_Length = \<lparr>Length = (if conf_Length < 1 then 6 else conf_Length)\<rparr>"

text \<open>
  \<^verbatim>\<open>min := int64(1); for i := 1; i < o.Length; i++ { min *= 10 }\<close>:
  the loop, with the counter and the running value as arguments.
\<close>

function min_loop :: "int \<Rightarrow> int \<Rightarrow> int \<Rightarrow> int" where
  "min_loop i len m = (if i < len then min_loop (i + 1) len (int64 (m * 10)) else m)"
  by pat_completeness auto
termination
  by (relation "measure (\<lambda>(i, len, m). nat (len - i))") auto

declare min_loop.simps [simp del]

text \<open>
  \<^verbatim>\<open>GenerateOTP\<close>. The random source is the parameter \<open>rand_Int\<close>: applied to the
  bound, it gives what \<^verbatim>\<open>rand.Int(rand.Reader, bound)\<close> returns in this call, a number or
  the reader's error. \<^verbatim>\<open>rand.Int\<close> panics on a bound that is not positive, before it
  reads anything. The clock is read once, for the expiry: ten minutes are 600 seconds.
\<close>

definition GenerateOTP ::
  "otpServiceInstance \<Rightarrow> (int \<Rightarrow> go_error + int) \<Rightarrow> int \<Rightarrow> CacheInstance \<Rightarrow> string
     \<Rightarrow> (string \<times> go_error option) outcome \<times> CacheInstance" where
  "GenerateOTP svc rand_Int now c key =
     (let min = min_loop 1 (Length svc) 1;
          max = int64 (int64 (min * 10) - 1);
          diff = int64 (int64 (max - min) + 1)
      in if diff \<le> 0 then (Panics, c)
         else case rand_Int diff of
           Inl err \<Rightarrow> (Returns ([], Some (FailedToGenerateRandom err)), c)
         | Inr n \<Rightarrow>
             let result = int64 (n + min);
                 otp = Sprintf_0d (Length svc) result
             in case Set c key (AnyString otp) (now + 600) of
                  (Some err, c') \<Rightarrow> (Returns ([], Some (FailedToStoreOTP err)), c')
                | (None, c') \<Rightarrow> (Returns (Sprintf_0d (Length svc) result, None), c'))"

text \<open>
  \<^verbatim>\<open>ValidateOTP\<close>. \<^verbatim>\<open>len(otp)\<close> counts bytes, as \<open>length\<close> does on a \<open>string\<close>.
  The comparison \<^verbatim>\<open>cachedOTP.(string) != otp\<close> asserts the dynamic type first and panics
  when the cached value is neither nil (excluded just before) nor a string.
\<close>

definition ValidateOTP ::
  "otpServiceInstance \<Rightarrow> int \<Rightarrow> CacheInstance \<Rightarrow> string \<Rightarrow> string
     \<Rightarrow> (bool \<times> go_error option) outcome \<times> CacheInstance" where
  "ValidateOTP svc now c key otp =
     (if otp = [] \<or> int (length otp) \<noteq> Length svc then (Returns (False, Some ErrInvalidOTP), c)
      else case Get c now key of
        ((cachedOTP, exists), c1) \<Rightarrow>
          if \<not> exists then (Returns (False, Some (OTPNotFound key)), c1)
          else case cachedOTP of
                 AnyNil \<Rightarrow> (Returns (False, Some (OTPDoesNotMatch key)), c1)
               | AnyString s \<Rightarrow>
                   if s \<noteq> otp then (Returns (False, Some (OTPDoesNotMatch key)), c1)
                   else (Returns (True, None), Delete c1 key)
               | _ \<Rightarrow> (Panics, c1))"

subsection \<open>The environment of a call\<close>

text \<open>
  What \<^verbatim>\<open>crypto/rand\<close> promises of \<^verbatim>\<open>rand.Int\<close>: on a positive bound, a number it
  returns lies in \<open>[0, bound)\<close>.
\<close>

definition draws_in_range :: "(int \<Rightarrow> go_error + int) \<Rightarrow> bool" where
  "draws_in_range rand_Int \<longleftrightarrow>
     (\<forall>bound n. 0 < bound \<longrightarrow> rand_Int bound = Inr n \<longrightarrow> 0 \<le> n \<and> n < bound)"

text \<open>
  A random source for concrete runs: it returns \<open>n\<close> whenever \<open>n\<close> lies below the
  bound it is asked for, and fails otherwise.
\<close>

definition draw :: "int \<Rightarrow> int \<Rightarrow> go_error + int" where
  "draw n bound = (if 0 \<le> n \<and> n < bound then Inr n else Inl ReaderError)"

text \<open>A scan during which the clock stands at \<open>now\<close>.\<close>

definition at_time :: "int \<Rightarrow> string \<Rightarrow> int" where
  "at_time now key = now"

text \<open>A cache in which every stored value is a string, as \<open>GenerateOTP\<close> stores them.\<close>

definition only_strings :: "CacheInstance \<Rightarrow> bool" where
  "only_strings c \<longleftrightarrow> (\<forall>key entry. data c key = Some entry \<longrightarrow> (\<exists>s. Data entry = AnyString s))"

text \<open>Reading a string of decimal digits back as a number.\<close>

definition decimal_value :: "string \<Rightarrow> nat" where
  "decimal_value s = foldl (\<lambda>acc ch. 10 * acc + (of_char ch - 48)) 0 s"

section \<open>Arithmetic of the range and of the digits\<close>

text \<open>Within its range, \<open>int64\<close> changes nothing.\<close>

lemma int64_id: "- 9223372036854775808 \<le> x \<Longrightarrow> x < 9223372036854775808 \<Longrightarrow> int64 x = x"
  by (simp add: int64_def)

lemma min_loop_pow:
  "i \<le> len \<Longrightarrow> 0 < m \<Longrightarrow> m * 10 ^ nat (len - i) < 9223372036854775808
     \<Longrightarrow> min_loop i len m = m * 10 ^ nat (len - i)"
proof (induction i len m rule: min_loop.induct)
  case (1 i len m)
  show ?case
  proof (cases "i < len")
    case False
    with "1.prems" have "len = i" by simp
    then show ?thesis by (simp add: min_loop.simps)
  next
    case True
    then have split: "nat (len - i) = Suc (nat (len - (i + 1)))" by simp
    have pos: "(1::int) \<le> 10 ^ nat (len - (i + 1))" by simp
    have "m * 10 * 1 \<le> m * 10 * 10 ^ nat (len - (i + 1))"
      using "1.prems"(2) pos by (intro mult_left_mono) simp_all
    with "1.prems"(3) split have small: "m * 10 < 9223372036854775808"
      by (simp add: mult.assoc)
    with "1.prems"(2) have wrap: "int64 (m * 10) = m * 10"
      by (intro int64_id) simp_all
    have "min_loop (i + 1) len (int64 (m * 10)) = int64 (m * 10) * 10 ^ nat (len - (i + 1))"
      using True "1.prems" split wrap by (intro "1.IH") (simp_all add: mult.assoc)
    with True wrap split show ?thesis
      by (simp add: min_loop.simps [of i len m] mult.assoc)
  qed
qed

lemma length_digits: "10 ^ k \<le> n \<Longrightarrow> n < 10 ^ Suc k \<Longrightarrow> length (digits n) = Suc k"
proof (induction k arbitrary: n)
  case 0
  then show ?case by (simp add: digits.simps [of n])
next
  case (Suc k)
  have one: "(1::nat) \<le> 10 ^ k" by simp
  from Suc.prems(1) have "10 * 10 ^ k \<le> n" by simp
  with one have big: "\<not> n < 10" by linarith
  from Suc.prems have "10 ^ k \<le> n div 10" "n div 10 < 10 ^ Suc k"
    by (simp_all add: less_eq_div_iff_mult_less_eq div_less_iff_less_mult mult.commute)
  then have "length (digits (n div 10)) = Suc k" by (rule Suc.IH)
  with big show ?case by (simp add: digits.simps [of n])
qed

lemma pow_small:
  assumes "1 \<le> L" "L \<le> 18"
  shows "(1::int) \<le> 10 ^ nat (L - 1)" and "(10::int) ^ nat (L - 1) \<le> 100000000000000000"
proof -
  show "(1::int) \<le> 10 ^ nat (L - 1)" by simp
  from assms have "nat (L - 1) \<le> 17" by simp
  then have "(10::int) ^ nat (L - 1) \<le> 10 ^ 17" by (intro power_increasing) simp_all
  then show "(10::int) ^ nat (L - 1) \<le> 100000000000000000" by simp
qed

lemma min_small:
  assumes "1 \<le> L" "L \<le> 18"
  shows "min_loop 1 L 1 = 10 ^ nat (L - 1)"
proof -
  from pow_small [OF assms] have "1 * (10::int) ^ nat (L - 1) < 9223372036854775808" by simp
  with assms(1) have "min_loop 1 L 1 = 1 * 10 ^ nat (L - 1)" by (intro min_loop_pow) simp_all
  then show ?thesis by simp
qed

lemma diff_small:
  assumes "1 \<le> p" "p \<le> 100000000000000000"
  shows "int64 (int64 (int64 (int64 (p * 10) - 1) - p) + 1) = 9 * p"
proof -
  from assms have a: "int64 (p * 10) = p * 10" by (intro int64_id) simp_all
  from assms have b: "int64 (p * 10 - 1) = p * 10 - 1" by (intro int64_id) simp_all
  from assms have c: "int64 (p * 10 - 1 - p) = 9 * p - 1" by (subst int64_id) simp_all
  from assms have d: "int64 (9 * p - 1 + 1) = 9 * p" by (subst int64_id) simp_all
  show ?thesis by (simp only: a b c d)
qed

lemma result_small:
  assumes "1 \<le> p" "p \<le> 100000000000000000" "0 \<le> n" "n < 9 * p"
  shows "int64 (n + p) = n + p"
  using assms by (intro int64_id) simp_all

lemma Sprintf_0d_exact:
  assumes "1 \<le> L" "L \<le> 18" "(10::int) ^ nat (L - 1) \<le> v" "v < 10 ^ nat L"
  shows "Sprintf_0d L v = digits (nat v)" and "int (length (digits (nat v))) = L"
proof -
  from assms(1) have L: "nat L = Suc (nat (L - 1))" by simp
  have "(10::nat) ^ nat (L - 1) \<le> nat v"
    using assms(3) by (simp add: le_nat_iff)
  moreover have "nat v < 10 ^ Suc (nat (L - 1))"
    using assms(3,4) L by (simp add: nat_less_iff)
  ultimately have len: "length (digits (nat v)) = Suc (nat (L - 1))" by (rule length_digits)
  with assms(1) show "int (length (digits (nat v))) = L" by simp
  have "0 < v" using assms(3) pow_small(1) [OF assms(1,2)] by linarith
  with assms(1,2) len L show "Sprintf_0d L v = digits (nat v)" by (simp add: Sprintf_0d_def)
qed

section \<open>What \<open>GenerateOTP\<close> does for lengths 1 to 18\<close>

text \<open>
  For these lengths no operation of the range computation leaves \<^verbatim>\<open>int64\<close>: the bound
  handed to the random source is \<open>9 * 10 ^ (L - 1)\<close>, and a draw \<open>n\<close> yields the
  \<open>L\<close> digits of \<open>n + 10 ^ (L - 1)\<close>, stored under the key for 600 seconds.
\<close>

lemma draws_in_range_draw: "draws_in_range (draw n)"
  by (simp add: draws_in_range_def draw_def)

lemma GenerateOTP_small:
  assumes len: "1 \<le> Length svc" "Length svc \<le> 18"
    and rnd: "rand_Int (9 * 10 ^ nat (Length svc - 1)) = Inr n"
    and n: "0 \<le> n" "n < 9 * 10 ^ nat (Length svc - 1)"
    and key: "key \<noteq> []"
  shows "GenerateOTP svc rand_Int now c key =
           (Returns (digits (nat (n + 10 ^ nat (Length svc - 1))), None),
            c\<lparr>data := (data c)(key \<mapsto>
                \<lparr>Data = AnyString (digits (nat (n + 10 ^ nat (Length svc - 1)))),
                 Expiry = now + 600\<rparr>)\<rparr>)"
    and "int (length (digits (nat (n + 10 ^ nat (Length svc - 1))))) = Length svc"
proof -
  define p :: int where "p = 10 ^ nat (Length svc - 1)"
  have p: "1 \<le> p" "p \<le> 100000000000000000"
    using pow_small [OF len] by (simp_all add: p_def)
  have min: "min_loop 1 (Length svc) 1 = p"
    using min_small [OF len] by (simp add: p_def)
  have diff: "int64 (int64 (int64 (int64 (p * 10) - 1) - p) + 1) = 9 * p"
    using p by (rule diff_small)
  have result: "int64 (n + p) = n + p"
    using p n by (intro result_small) (simp_all add: p_def)
  have "nat (Length svc) = Suc (nat (Length svc - 1))" using len(1) by simp
  then have "(10::int) ^ nat (Length svc) = 10 * p" by (simp add: p_def)
  with n have range: "p \<le> n + p" "n + p < 10 ^ nat (Length svc)"
    by (simp_all add: p_def)
  have fmt: "Sprintf_0d (Length svc) (n + p) = digits (nat (n + p))"
    and flen: "int (length (digits (nat (n + p)))) = Length svc"
    using Sprintf_0d_exact [OF len, of "n + p"] range by (simp_all add: p_def)
  from flen show "int (length (digits (nat (n + 10 ^ nat (Length svc - 1))))) = Length svc"
    by (simp add: p_def)
  have pos: "\<not> 9 * p \<le> 0" using p by simp
  from rnd have rnd': "rand_Int (9 * p) = Inr n" by (simp add: p_def)
  show "GenerateOTP svc rand_Int now c key =
           (Returns (digits (nat (n + 10 ^ nat (Length svc - 1))), None),
            c\<lparr>data := (data c)(key \<mapsto>
                \<lparr>Data = AnyString (digits (nat (n + 10 ^ nat (Length svc - 1)))),
                 Expiry = now + 600\<rparr>)\<rparr>)"
    unfolding p_def [symmetric]
    by (simp add: GenerateOTP_def Let_def min diff pos rnd' result fmt Set_def key)
qed

text \<open>
  The string returned for these lengths consists of exactly \<open>L\<close> decimal digits, and
  read back as a number it lies between \<open>10 ^ (L - 1)\<close> and \<open>10 ^ L - 1\<close>; for
  \<open>L = 1\<close> that is 1 to 9.
\<close>

lemma digit_cases:
  "d < 10 \<Longrightarrow> d = 0 \<or> d = 1 \<or> d = 2 \<or> d = 3 \<or> d = 4 \<or> d = 5 \<or> d = 6 \<or> d = 7 \<or> d = 8 \<or> d = (9::nat)"
  by arith

lemma digit_decimal: "d < 10 \<Longrightarrow> digit d \<in> set ''0123456789''"
  by (drule digit_cases) (auto simp: digit_def)

lemma of_char_digit: "d < 10 \<Longrightarrow> (of_char (digit d) :: nat) = 48 + d"
  by (drule digit_cases) (auto simp: digit_def)

lemma digits_decimal: "set (digits n) \<subseteq> set ''0123456789''"
proof (induction n rule: digits.induct)
  case (1 n)
  show ?case
  proof (cases "n < 10")
    case True
    then show ?thesis using digit_decimal [of n] by (simp add: digits.simps [of n])
  next
    case False
    have "digit (n mod 10) \<in> set ''0123456789''" by (rule digit_decimal) simp
    with False "1.IH" show ?thesis by (simp add: digits.simps [of n])
  qed
qed

lemma decimal_value_digits: "decimal_value (digits n) = n"
proof (induction n rule: digits.induct)
  case (1 n)
  show ?case
  proof (cases "n < 10")
    case True
    then show ?thesis by (simp add: digits.simps [of n] decimal_value_def of_char_digit)
  next
    case False
    then have "decimal_value (digits (n div 10)) = n div 10" by (rule "1.IH")
    moreover have "(of_char (digit (n mod 10)) :: nat) = 48 + n mod 10"
      by (rule of_char_digit) simp
    ultimately show ?thesis using False
      by (simp add: digits.simps [of n] decimal_value_def)
  qed
qed

lemma GenerateOTP_upto_18:
  assumes len: "1 \<le> Length svc" "Length svc \<le> 18"
    and src: "draws_in_range rand_Int"
    and gen: "GenerateOTP svc rand_Int now c key = (Returns (otp, None), c')"
  shows "int (length otp) = Length svc \<and> set otp \<subseteq> set ''0123456789''
       \<and> 10 ^ nat (Length svc - 1) \<le> decimal_value otp
       \<and> decimal_value otp \<le> 10 ^ nat (Length svc) - 1"
proof -
  define p :: int where "p = 10 ^ nat (Length svc - 1)"
  have p: "1 \<le> p" "p \<le> 100000000000000000"
    using pow_small [OF len] by (simp_all add: p_def)
  have min: "min_loop 1 (Length svc) 1 = p"
    using min_small [OF len] by (simp add: p_def)
  have diff: "int64 (int64 (int64 (int64 (p * 10) - 1) - p) + 1) = 9 * p"
    using p by (rule diff_small)
  from gen obtain n where rnd: "rand_Int (9 * p) = Inr n" and key: "key \<noteq> []"
    using p by (auto simp: GenerateOTP_def Let_def min diff Set_def split: if_splits sum.splits)
  have "0 < 9 * p" using p by simp
  with src rnd have n: "0 \<le> n" "n < 9 * p" unfolding draws_in_range_def by blast+
  have "GenerateOTP svc rand_Int now c key =
           (Returns (digits (nat (n + 10 ^ nat (Length svc - 1))), None),
            c\<lparr>data := (data c)(key \<mapsto>
                \<lparr>Data = AnyString (digits (nat (n + 10 ^ nat (Length svc - 1)))),
                 Expiry = now + 600\<rparr>)\<rparr>)"
    using len rnd [unfolded p_def] n [unfolded p_def] key by (rule GenerateOTP_small(1))
  with gen have otp: "otp = digits (nat (n + p))" by (simp add: p_def)
  have "int (length (digits (nat (n + 10 ^ nat (Length svc - 1))))) = Length svc"
    using len rnd [unfolded p_def] n [unfolded p_def] key by (rule GenerateOTP_small(2))
  then have olen: "int (length otp) = Length svc" by (simp add: otp p_def)
  have "nat (Length svc) = Suc (nat (Length svc - 1))" using len(1) by simp
  then have ten: "(10::nat) ^ nat (Length svc) = 10 * nat p" by (simp add: p_def nat_power_eq)
  have pn: "(10::nat) ^ nat (Length svc - 1) = nat p" by (simp add: p_def nat_power_eq)
  have chars: "set otp \<subseteq> set ''0123456789''"
    unfolding otp by (rule digits_decimal)
  have val: "decimal_value otp = nat (n + p)"
    unfolding otp by (rule decimal_value_digits)
  have "nat p \<le> nat (n + p)" "nat (n + p) \<le> 10 * nat p - 1"
    using n p by simp_all
  then have "10 ^ nat (Length svc - 1) \<le> decimal_value otp"
    and "decimal_value otp \<le> 10 ^ nat (Length svc) - 1"
    by (simp_all only: val ten pn)
  with olen chars show ?thesis by blast
qed

section \<open>The range computation beyond \<^verbatim>\<open>int64\<close>\<close>

text \<open>
  For the length 19 the loop still gives \<open>10 ^ 18\<close>, but \<^verbatim>\<open>min*10\<close> wraps around;
  for the length 20 the loop itself wraps.
\<close>

lemma min_loop_19: "min_loop 1 19 1 = 1000000000000000000"
  by (simp add: min_loop.simps int64_def)

lemma min_loop_20: "min_loop 1 20 1 = - 8446744073709551616"
  by (simp add: min_loop.simps int64_def)

lemma digits_overflowed: "digits 8446744073709551617 = ''8446744073709551617''"
  by (simp add: digits.simps digit_def)

text \<open>
  The string that the length-19 service returns for the draw 8999999999999999999 (see
  \<open>digits_overflowed\<close>) has 20 characters, so the service rejects it by format.
\<close>

lemma length_19_rejects_its_own_otp:
  "ValidateOTP (NewService 19) now c key ''-8446744073709551617''
     = (Returns (False, Some ErrInvalidOTP), c)"
  by (simp add: ValidateOTP_def NewService_def)

section \<open>Caches that hold only strings\<close>

lemma only_strings_new: "only_strings new_CacheInstance"
  by (simp add: only_strings_def new_CacheInstance_def)

lemma only_strings_GenerateOTP:
  "only_strings c \<Longrightarrow> only_strings (snd (GenerateOTP svc rand_Int now c key))"
  by (auto simp: only_strings_def GenerateOTP_def Let_def Set_def split: if_splits sum.splits)

lemma only_strings_ValidateOTP:
  "only_strings c \<Longrightarrow> only_strings (snd (ValidateOTP svc now c key otp))"
  by (auto simp: only_strings_def ValidateOTP_def Get_def Delete_def
      split: if_splits option.splits go_any.splits)

text \<open>On a cached value of another dynamic type the type assertion panics.\<close>

lemma ValidateOTP_panics_on_other_type:
  "fst (ValidateOTP (NewService 6) 1700000000
          (snd (Set new_CacheInstance ''u1'' (AnyInt 123456) 1700000600)) ''u1'' ''123456'')
     = Panics"
  by (simp add: ValidateOTP_def NewService_def Get_def Set_def IsExpired_def)

section \<open>The claims\<close>

subsection \<open>C1: generate, validate, validate again\<close>

text \<open>
  C1 as stated, for every key: with the empty key, \<open>GenerateOTP\<close> returns the empty
  string and the error of \<open>Set\<close>, and \<open>ValidateOTP\<close> of that key and that string
  returns false with \<open>ErrInvalidOTP\<close>, not \<open>(true, nil)\<close>.
\<close>

theorem roundtrip_counterexample:
  "fst (GenerateOTP (NewService 6) (draw 0) 1700000000 new_CacheInstance []) =
     Returns ([], Some (FailedToStoreOTP KeyCannotBeEmpty))
   \<and> fst (ValidateOTP (NewService 6) 1700000000
           (snd (GenerateOTP (NewService 6) (draw 0) 1700000000 new_CacheInstance [])) [] []) =
     Returns (False, Some ErrInvalidOTP)"
  by (simp add: GenerateOTP_def ValidateOTP_def NewService_def Let_def min_loop.simps int64_def
      draw_def Set_def)

text \<open>
  C1, amended: for every non-empty key and every configured length from 1 to 18, when
  the random source delivers a number, \<open>GenerateOTP\<close> succeeds; \<open>ValidateOTP\<close> of
  the key and the returned OTP, at any clock reading up to 600 seconds after the
  generation, returns \<open>(true, nil)\<close> and leaves no entry under the key; and a second
  \<open>ValidateOTP\<close> of the same key and OTP, at any time, returns false with the
  not-found error.
\<close>

theorem roundtrip:
  assumes key: "key \<noteq> []"
    and len: "1 \<le> Length svc" "Length svc \<le> 18"
    and src: "draws_in_range rand_Int"
    and rnd: "rand_Int (9 * 10 ^ nat (Length svc - 1)) = Inr n"
    and soon: "now' \<le> now + 600"
  shows "\<exists>otp c1 c2.
           GenerateOTP svc rand_Int now c key = (Returns (otp, None), c1)
         \<and> ValidateOTP svc now' c1 key otp = (Returns (True, None), c2)
         \<and> data c2 key = None
         \<and> ValidateOTP svc now'' c2 key otp = (Returns (False, Some (OTPNotFound key)), c2)"
proof -
  define otp where "otp = digits (nat (n + 10 ^ nat (Length svc - 1)))"
  define c1 where
    "c1 = c\<lparr>data := (data c)(key \<mapsto> \<lparr>Data = AnyString otp, Expiry = now + 600\<rparr>)\<rparr>"
  define c2 where "c2 = Delete c1 key"
  have "(0::int) < 9 * 10 ^ nat (Length svc - 1)" by simp
  with src rnd have n: "0 \<le> n" "n < 9 * 10 ^ nat (Length svc - 1)"
    unfolding draws_in_range_def by blast+
  have gen: "GenerateOTP svc rand_Int now c key = (Returns (otp, None), c1)"
    unfolding otp_def c1_def using len rnd n key by (rule GenerateOTP_small(1))
  have olen: "int (length otp) = Length svc"
    unfolding otp_def using len rnd n key by (rule GenerateOTP_small(2))
  with len(1) have ne: "otp \<noteq> []" by auto
  have get: "Get c1 now' key = ((AnyString otp, True), c1)"
    using soon by (simp add: Get_def c1_def IsExpired_def)
  have val: "ValidateOTP svc now' c1 key otp = (Returns (True, None), c2)"
    by (simp add: ValidateOTP_def ne olen get c2_def)
  have gone: "data c2 key = None" by (simp add: c2_def Delete_def)
  then have "Get c2 now'' key = ((AnyNil, False), c2)" by (simp add: Get_def)
  then have again:
    "ValidateOTP svc now'' c2 key otp = (Returns (False, Some (OTPNotFound key)), c2)"
    by (simp add: ValidateOTP_def ne olen)
  from gen val gone again show ?thesis by blast
qed

text \<open>The round trip of the length-4 service for the key "u1" and the draw 734.\<close>

theorem roundtrip_witness:
  "''u1'' \<noteq> [] \<and> 1 \<le> Length (NewService 4) \<and> Length (NewService 4) \<le> 18
   \<and> draws_in_range (draw 734)
   \<and> draw 734 (9 * 10 ^ nat (Length (NewService 4) - 1)) = Inr 734
   \<and> (1700000060::int) \<le> 1700000000 + 600
   \<and> (\<exists>otp c1 c2.
         GenerateOTP (NewService 4) (draw 734) 1700000000 new_CacheInstance ''u1''
           = (Returns (otp, None), c1)
       \<and> ValidateOTP (NewService 4) 1700000060 c1 ''u1'' otp = (Returns (True, None), c2)
       \<and> data c2 ''u1'' = None
       \<and> ValidateOTP (NewService 4) 1700000061 c2 ''u1'' otp
           = (Returns (False, Some (OTPNotFound ''u1'')), c2))"
proof -
  have key: "''u1'' \<noteq> []" by simp
  have len: "1 \<le> Length (NewService 4)" "Length (NewService 4) \<le> 18"
    by (simp_all add: NewService_def)
  have src: "draws_in_range (draw 734)"
    by (simp add: draws_in_range_def draw_def)
  have rnd: "draw 734 (9 * 10 ^ nat (Length (NewService 4) - 1)) = Inr 734"
    by (simp add: NewService_def draw_def)
  have soon: "(1700000060::int) \<le> 1700000000 + 600" by simp
  from roundtrip [OF key len src rnd soon, of new_CacheInstance 1700000061]
    key len src rnd soon
  show ?thesis by blast
qed

subsection \<open>C2: expiry at read time\<close>

text \<open>
  C2 as stated: an entry whose expiry instant equals the current time would be invisible.
  \<open>IsExpired\<close> compares with \<^verbatim>\<open><\<close>, so at that instant \<open>Get\<close> still
  returns the value and \<open>Exists\<close> returns true.
\<close>

theorem expiry_equal_now_counterexample:
  "fst (Get (snd (Set new_CacheInstance ''k'' (AnyString ''v'') 1700000000)) 1700000000 ''k'')
     = (AnyString ''v'', True)
   \<and> fst (Exists (snd (Set new_CacheInstance ''k'' (AnyString ''v'') 1700000000)) 1700000000 ''k'')
     = True"
  by (simp add: Get_def Exists_def Set_def new_CacheInstance_def IsExpired_def)

text \<open>
  C2, amended: for every key present in the cache, \<open>Get\<close> returns not-found, and
  \<open>Exists\<close> returns false, exactly when the entry's expiry instant is strictly before
  the current time; an entry whose expiry instant is the current time or later is returned
  by \<open>Get\<close> and reported by \<open>Exists\<close>.
\<close>

theorem Get_Exists_expiry:
  "data c key = Some entry \<Longrightarrow>
     fst (Get c now key) = (if Expiry entry < now then (AnyNil, False) else (Data entry, True))
   \<and> fst (Exists c now key) = (\<not> Expiry entry < now)"
  by (simp add: Get_def Exists_def IsExpired_def)

text \<open>An entry that expired one second ago.\<close>

theorem Get_Exists_expiry_witness:
  "data (snd (Set new_CacheInstance ''k'' (AnyString ''v'') 1700000000)) ''k''
     = Some \<lparr>Data = AnyString ''v'', Expiry = 1700000000\<rparr>
   \<and> fst (Get (snd (Set new_CacheInstance ''k'' (AnyString ''v'') 1700000000)) 1700000001 ''k'')
     = (AnyNil, False)
   \<and> fst (Exists (snd (Set new_CacheInstance ''k'' (AnyString ''v'') 1700000000)) 1700000001 ''k'')
     = False"
proof -
  have h: "data (snd (Set new_CacheInstance ''k'' (AnyString ''v'') 1700000000)) ''k''
     = Some \<lparr>Data = AnyString ''v'', Expiry = 1700000000\<rparr>"
    by (simp add: Set_def)
  from Get_Exists_expiry [OF h, of 1700000001] h show ?thesis by simp
qed

subsection \<open>C3: the sweep\<close>

text \<open>
  C3 as stated: the sweep would remove an entry whose expiry instant equals the current
  time. It stays in the map.
\<close>

theorem sweep_equal_now_counterexample:
  "data (RemoveExpiredEntries (snd (Set new_CacheInstance ''k'' (AnyString ''v'') 1700000000))
           (at_time 1700000000)) ''k''
     = Some \<lparr>Data = AnyString ''v'', Expiry = 1700000000\<rparr>"
  by (simp add: RemoveExpiredEntries_def Set_def IsExpired_def at_time_def)

text \<open>
  C3, amended: \<open>RemoveExpiredEntries\<close> removes from the map every entry whose expiry
  instant is strictly before the clock reading taken when the scan visits it, leaves every
  entry whose expiry instant is that reading or later untouched, and adds nothing; in
  particular an entry set with expiry \<open>now - 1\<close> is removed by a scan that runs at
  \<open>now\<close> or later.
\<close>

theorem RemoveExpiredEntries_removes:
  "(data c key = Some entry \<and> Expiry entry < clock key
      \<longrightarrow> data (RemoveExpiredEntries c clock) key = None)
   \<and> (data c key = Some entry \<and> clock key \<le> Expiry entry
      \<longrightarrow> data (RemoveExpiredEntries c clock) key = Some entry)
   \<and> (data c key = None \<longrightarrow> data (RemoveExpiredEntries c clock) key = None)
   \<and> (key \<noteq> [] \<and> now \<le> clock key
      \<longrightarrow> data (RemoveExpiredEntries (snd (Set c key val (now - 1))) clock) key = None)"
  by (simp add: RemoveExpiredEntries_def IsExpired_def Set_def)

text \<open>
  A scan at 1700000000 of a cache with an entry that expired a second before and an entry
  that expires a second later.
\<close>

theorem RemoveExpiredEntries_removes_witness:
  "data (RemoveExpiredEntries
           (snd (Set (snd (Set new_CacheInstance ''old'' (AnyString ''1'') (1700000000 - 1)))
                  ''new'' (AnyString ''2'') 1700000001))
           (at_time 1700000000)) ''old'' = None
   \<and> data (RemoveExpiredEntries
           (snd (Set (snd (Set new_CacheInstance ''old'' (AnyString ''1'') (1700000000 - 1)))
                  ''new'' (AnyString ''2'') 1700000001))
           (at_time 1700000000)) ''new'' = Some \<lparr>Data = AnyString ''2'', Expiry = 1700000001\<rparr>
   \<and> data (RemoveExpiredEntries
           (snd (Set (snd (Set new_CacheInstance ''old'' (AnyString ''1'') (1700000000 - 1)))
                  ''new'' (AnyString ''2'') 1700000001))
           (at_time 1700000000)) ''none'' = None
   \<and> data (RemoveExpiredEntries
           (snd (Set new_CacheInstance ''old'' (AnyString ''1'') (1700000000 - 1)))
           (at_time 1700000000)) ''old'' = None"
proof -
  let ?c1 = "snd (Set new_CacheInstance ''old'' (AnyString ''1'') (1700000000 - 1))"
  let ?c = "snd (Set ?c1 ''new'' (AnyString ''2'') 1700000001)"
  let ?old = "\<lparr>Data = AnyString ''1'', Expiry = 1699999999\<rparr>"
  let ?new = "\<lparr>Data = AnyString ''2'', Expiry = 1700000001\<rparr>"
  have old: "data ?c ''old'' = Some ?old \<and> Expiry ?old < at_time 1700000000 ''old''"
    by (simp add: Set_def at_time_def)
  have new: "data ?c ''new'' = Some ?new \<and> at_time 1700000000 ''new'' \<le> Expiry ?new"
    by (simp add: Set_def at_time_def)
  have none: "data ?c ''none'' = None"
    by (simp add: Set_def new_CacheInstance_def)
  have set: "''old'' \<noteq> [] \<and> (1700000000::int) \<le> at_time 1700000000 ''old''"
    by (simp add: at_time_def)
  from RemoveExpiredEntries_removes [of ?c "''old''" ?old "at_time 1700000000"] old
  have 1: "data (RemoveExpiredEntries ?c (at_time 1700000000)) ''old'' = None"
    by blast
  from RemoveExpiredEntries_removes [of ?c "''new''" ?new "at_time 1700000000"] new
  have 2: "data (RemoveExpiredEntries ?c (at_time 1700000000)) ''new'' = Some ?new"
    by blast
  from RemoveExpiredEntries_removes [of ?c "''none''" ?new "at_time 1700000000"] none
  have 3: "data (RemoveExpiredEntries ?c (at_time 1700000000)) ''none'' = None"
    by blast
  from RemoveExpiredEntries_removes
         [of new_CacheInstance "''old''" ?old "at_time 1700000000" 1700000000 "AnyString ''1''"] set
  have 4: "data (RemoveExpiredEntries ?c1 (at_time 1700000000)) ''old'' = None"
    by blast
  from 1 2 3 4 show ?thesis by blast
qed

subsection \<open>C4: the digits of a generated OTP\<close>

text \<open>
  C4 says that for every configured length \<open>L \<ge> 1\<close> the returned string has exactly
  \<open>L\<close> decimal digits with a value in \<open>[10 ^ (L - 1), 10 ^ L - 1]\<close>. The code
  computes the range in \<^verbatim>\<open>int64\<close>: with the length 19 and the draw
  8999999999999999999, which lies below the bound 9000000000000000000 that the code hands
  to the random source, the sum wraps around and the service stores and returns a string of
  20 characters that begins with a minus sign; with the length 20 the bound itself is
  negative and \<^verbatim>\<open>rand.Int\<close> panics.
\<close>

theorem GenerateOTP_int64_overflow:
  "fst (GenerateOTP (NewService 19) (draw 8999999999999999999) 1700000000 new_CacheInstance ''u1'')
     = Returns (''-8446744073709551617'', None)
   \<and> length ''-8446744073709551617'' = 20
   \<and> fst (GenerateOTP (NewService 20) (draw 0) 1700000000 new_CacheInstance ''u1'') = Panics"
proof -
  have "fst (GenerateOTP (NewService 19) (draw 8999999999999999999) 1700000000
               new_CacheInstance ''u1'') = Returns (''-8446744073709551617'', None)"
    by (simp add: GenerateOTP_def NewService_def Let_def min_loop_19 int64_def draw_def
        Set_def Sprintf_0d_def digits_overflowed)
  moreover have "fst (GenerateOTP (NewService 20) (draw 0) 1700000000 new_CacheInstance ''u1'')
                   = Panics"
    by (simp add: GenerateOTP_def NewService_def Let_def min_loop_20 int64_def)
  ultimately show ?thesis by simp
qed

subsection \<open>C5: rejection by format\<close>

text \<open>
  C5: for every key, \<open>ValidateOTP\<close> of a submitted value that is empty or whose length
  differs from the configured length returns false with \<open>ErrInvalidOTP\<close>, whatever the
  cache holds and whatever the clock shows, and hands the cache back as it received it.
\<close>

theorem ValidateOTP_format:
  "otp = [] \<or> int (length otp) \<noteq> Length svc \<Longrightarrow>
     ValidateOTP svc now c key otp = (Returns (False, Some ErrInvalidOTP), c)
   \<and> fst (ValidateOTP svc now' c' key otp) = fst (ValidateOTP svc now c key otp)"
  by (auto simp: ValidateOTP_def)

text \<open>Five digits submitted to the six-digit service while a live OTP is cached.\<close>

theorem ValidateOTP_format_witness:
  "(''12345'' = [] \<or> int (length ''12345'') \<noteq> Length (NewService 6))
   \<and> ValidateOTP (NewService 6) 1700000000
        (snd (Set new_CacheInstance ''u1'' (AnyString ''123456'') 1700000600)) ''u1'' ''12345''
      = (Returns (False, Some ErrInvalidOTP),
         snd (Set new_CacheInstance ''u1'' (AnyString ''123456'') 1700000600))"
proof -
  have h: "''12345'' = [] \<or> int (length ''12345'') \<noteq> Length (NewService 6)"
    by (simp add: NewService_def)
  from ValidateOTP_format [OF h] h show ?thesis by simp
qed

subsection \<open>C6: a wrong OTP\<close>

text \<open>
  C6 as stated: after a wrong guess, \<open>ValidateOTP\<close> with the correct value would
  succeed for every live cached OTP. The cache is shared by every service that is given it
  (and the default cache by every service that is given none), and the format check
  compares the submitted value with the length of the validating service: the OTP "1734"
  that a length-4 service has cached under "u1" is live, a wrong guess of six characters
  at the length-6 service is answered with the mismatch error and deletes nothing, and the
  correct value "1734" is then rejected by that service with \<open>ErrInvalidOTP\<close>.
\<close>

theorem ValidateOTP_mismatch_counterexample:
  "fst (GenerateOTP (NewService 4) (draw 734) 1700000000 new_CacheInstance ''u1'')
     = Returns (''1734'', None)
   \<and> fst (ValidateOTP (NewService 6) 1700000060
           (snd (GenerateOTP (NewService 4) (draw 734) 1700000000 new_CacheInstance ''u1''))
           ''u1'' ''000000'')
     = Returns (False, Some (OTPDoesNotMatch ''u1''))
   \<and> fst (ValidateOTP (NewService 6) 1700000061
           (snd (ValidateOTP (NewService 6) 1700000060
                  (snd (GenerateOTP (NewService 4) (draw 734) 1700000000 new_CacheInstance ''u1''))
                  ''u1'' ''000000''))
           ''u1'' ''1734'')
     = Returns (False, Some ErrInvalidOTP)"
proof -
  have gen: "GenerateOTP (NewService 4) (draw 734) 1700000000 new_CacheInstance ''u1''
     = (Returns (''1734'', None),
        \<lparr>data = [''u1'' \<mapsto> \<lparr>Data = AnyString ''1734'', Expiry = 1700000600\<rparr>]\<rparr>)"
    by (simp add: GenerateOTP_def NewService_def Let_def min_loop.simps int64_def draw_def
        Set_def Sprintf_0d_def digits.simps digit_def new_CacheInstance_def)
  show ?thesis
    unfolding gen
    by (simp add: ValidateOTP_def NewService_def Get_def IsExpired_def)
qed

text \<open>
  C6, amended: for every key with a live cached OTP, \<open>ValidateOTP\<close> of a value that
  has the configured length but differs from the cached OTP returns false with the
  mismatch error and does not delete the entry: the cache is left as it was. A following
  \<open>ValidateOTP\<close> of the cached OTP, at any clock reading up to the expiry instant,
  returns \<open>(true, nil)\<close> and deletes the entry when the cached OTP has the configured
  length of the validating service; a cached OTP of another length is rejected by format
  with \<open>ErrInvalidOTP\<close>, at any clock reading, and stays in the cache.
\<close>

theorem ValidateOTP_mismatch:
  assumes present: "data c key = Some entry" "Data entry = AnyString cached"
    and live: "\<not> IsExpired entry now"
    and len: "1 \<le> Length svc"
    and wrong: "int (length wrong) = Length svc" "wrong \<noteq> cached"
  shows "ValidateOTP svc now c key wrong = (Returns (False, Some (OTPDoesNotMatch key)), c)
       \<and> data (snd (ValidateOTP svc now c key wrong)) key = Some entry
       \<and> (\<forall>now'. now' \<le> Expiry entry \<and> int (length cached) = Length svc \<longrightarrow>
            ValidateOTP svc now' (snd (ValidateOTP svc now c key wrong)) key cached
              = (Returns (True, None), Delete c key))
       \<and> (\<forall>now'. int (length cached) \<noteq> Length svc \<longrightarrow>
            ValidateOTP svc now' (snd (ValidateOTP svc now c key wrong)) key cached
              = (Returns (False, Some ErrInvalidOTP), c))"
proof -
  from len wrong(1) have ne: "wrong \<noteq> []" by auto
  have get: "Get c now key = ((AnyString cached, True), c)"
    using present live by (simp add: Get_def)
  have first: "ValidateOTP svc now c key wrong = (Returns (False, Some (OTPDoesNotMatch key)), c)"
    using wrong ne by (simp add: ValidateOTP_def get)
  have right: "ValidateOTP svc now' c key cached = (Returns (True, None), Delete c key)"
    if "now' \<le> Expiry entry" and same: "int (length cached) = Length svc" for now'
  proof -
    from len same have "cached \<noteq> []" by auto
    moreover from that(1) present have "Get c now' key = ((AnyString cached, True), c)"
      by (simp add: Get_def IsExpired_def)
    ultimately show ?thesis using same by (simp add: ValidateOTP_def)
  qed
  have other: "ValidateOTP svc now' c key cached = (Returns (False, Some ErrInvalidOTP), c)"
    if "int (length cached) \<noteq> Length svc" for now'
    using that by (simp add: ValidateOTP_def)
  from first present(1) right other show ?thesis by simp
qed

text \<open>
  A wrong guess at 1700000000 and the right OTP in the last second of its life; and a
  wrong guess against a cached string of four characters, which the length-6 service then
  rejects by format.
\<close>

theorem ValidateOTP_mismatch_witness:
  "ValidateOTP (NewService 6) 1700000000
      (snd (Set new_CacheInstance ''u1'' (AnyString ''123456'') 1700000600)) ''u1'' ''654321''
     = (Returns (False, Some (OTPDoesNotMatch ''u1'')),
        snd (Set new_CacheInstance ''u1'' (AnyString ''123456'') 1700000600))
   \<and> ValidateOTP (NewService 6) 1700000600
        (snd (ValidateOTP (NewService 6) 1700000000
               (snd (Set new_CacheInstance ''u1'' (AnyString ''123456'') 1700000600)) ''u1'' ''654321''))
        ''u1'' ''123456''
     = (Returns (True, None),
        Delete (snd (Set new_CacheInstance ''u1'' (AnyString ''123456'') 1700000600)) ''u1'')
   \<and> ValidateOTP (NewService 6) 1700000001
        (snd (ValidateOTP (NewService 6) 1700000000
               (snd (Set new_CacheInstance ''u1'' (AnyString ''1734'') 1700000600)) ''u1'' ''654321''))
        ''u1'' ''1734''
     = (Returns (False, Some ErrInvalidOTP),
        snd (Set new_CacheInstance ''u1'' (AnyString ''1734'') 1700000600))"
proof -
  let ?c = "snd (Set new_CacheInstance ''u1'' (AnyString ''123456'') 1700000600)"
  let ?e = "\<lparr>Data = AnyString ''123456'', Expiry = 1700000600\<rparr>"
  let ?d = "snd (Set new_CacheInstance ''u1'' (AnyString ''1734'') 1700000600)"
  let ?f = "\<lparr>Data = AnyString ''1734'', Expiry = 1700000600\<rparr>"
  have 1: "data ?c ''u1'' = Some ?e" by (simp add: Set_def)
  have 2: "Data ?e = AnyString ''123456''" by simp
  have 3: "\<not> IsExpired ?e 1700000000" by (simp add: IsExpired_def)
  have 4: "1 \<le> Length (NewService 6)" by (simp add: NewService_def)
  have 5: "int (length ''654321'') = Length (NewService 6)" by (simp add: NewService_def)
  have 6: "''654321'' \<noteq> ''123456''" by simp
  have 7: "(1700000600::int) \<le> Expiry ?e \<and> int (length ''123456'') = Length (NewService 6)"
    by (simp add: NewService_def)
  have 8: "data ?d ''u1'' = Some ?f" by (simp add: Set_def)
  have 9: "Data ?f = AnyString ''1734''" by simp
  have 10: "\<not> IsExpired ?f 1700000000" by (simp add: IsExpired_def)
  have 11: "''654321'' \<noteq> ''1734''" by simp
  have 12: "int (length ''1734'') \<noteq> Length (NewService 6)" by (simp add: NewService_def)
  from ValidateOTP_mismatch [OF 1 2 3 4 5 6] 7
  have a: "ValidateOTP (NewService 6) 1700000000 ?c ''u1'' ''654321''
             = (Returns (False, Some (OTPDoesNotMatch ''u1'')), ?c)"
    and b: "ValidateOTP (NewService 6) 1700000600
              (snd (ValidateOTP (NewService 6) 1700000000 ?c ''u1'' ''654321'')) ''u1'' ''123456''
             = (Returns (True, None), Delete ?c ''u1'')"
    by blast+
  from ValidateOTP_mismatch [OF 8 9 10 4 5 11] 12
  have c: "ValidateOTP (NewService 6) 1700000001
              (snd (ValidateOTP (NewService 6) 1700000000 ?d ''u1'' ''654321'')) ''u1'' ''1734''
             = (Returns (False, Some ErrInvalidOTP), ?d)"
    by blast
  from a b c show ?thesis by blast
qed

subsection \<open>C7: \<open>Set\<close> and the empty key\<close>

text \<open>
  C7 as stated: \<open>Set\<close> would fail on a blank key. The guard is \<^verbatim>\<open>key == ""\<close>:
  the key of one blank is accepted and stored.
\<close>

theorem Set_blank_key_counterexample:
  "Set new_CacheInstance '' '' (AnyString ''v'') 1700000600
     = (None, \<lparr>data = [('' '') \<mapsto> \<lparr>Data = AnyString ''v'', Expiry = 1700000600\<rparr>]\<rparr>)"
  by (simp add: Set_def new_CacheInstance_def)

text \<open>
  C7, amended: \<open>Set\<close> fails, with the empty-key error, if and only if the key is the
  empty string, and then leaves the cache unchanged; for every other key, keys of
  blanks included, it succeeds, replaces whatever entry the key had by the new value and
  expiry, and leaves every other key as it was.
\<close>

theorem Set_empty_key_only:
  "(fst (Set c key val expiration) = Some KeyCannotBeEmpty \<longleftrightarrow> key = [])
   \<and> (fst (Set c key val expiration) = None \<longleftrightarrow> key \<noteq> [])
   \<and> (key = [] \<longrightarrow> snd (Set c key val expiration) = c)
   \<and> (key \<noteq> [] \<longrightarrow>
        data (snd (Set c key val expiration)) key = Some \<lparr>Data = val, Expiry = expiration\<rparr>)
   \<and> (key \<noteq> [] \<and> other \<noteq> key \<longrightarrow>
        data (snd (Set c key val expiration)) other = data c other)"
  by (simp add: Set_def)

text \<open>The empty key, and an overwrite next to an untouched entry.\<close>

theorem Set_empty_key_only_witness:
  "Set (snd (Set new_CacheInstance ''j'' (AnyString ''old'') 1700000600)) [] (AnyString ''v'') 1700000900
     = (Some KeyCannotBeEmpty, snd (Set new_CacheInstance ''j'' (AnyString ''old'') 1700000600))
   \<and> fst (Set (snd (Set new_CacheInstance ''j'' (AnyString ''old'') 1700000600))
             ''k'' (AnyInt 7) 1700000010) = None
   \<and> data (snd (Set (snd (Set new_CacheInstance ''j'' (AnyString ''old'') 1700000600))
                   ''k'' (AnyInt 7) 1700000010)) ''k''
     = Some \<lparr>Data = AnyInt 7, Expiry = 1700000010\<rparr>
   \<and> data (snd (Set (snd (Set new_CacheInstance ''j'' (AnyString ''old'') 1700000600))
                   ''k'' (AnyInt 7) 1700000010)) ''j''
     = Some \<lparr>Data = AnyString ''old'', Expiry = 1700000600\<rparr>"
proof -
  let ?c = "snd (Set new_CacheInstance ''j'' (AnyString ''old'') 1700000600)"
  have e: "([]::string) = []" by simp
  have k: "''k'' \<noteq> []" by simp
  have j: "''k'' \<noteq> [] \<and> ''j'' \<noteq> ''k''" by simp
  have old: "data ?c ''j'' = Some \<lparr>Data = AnyString ''old'', Expiry = 1700000600\<rparr>"
    by (simp add: Set_def)
  from Set_empty_key_only [of ?c "[]" "AnyString ''v''" 1700000900] e
  have 1: "fst (Set ?c [] (AnyString ''v'') 1700000900) = Some KeyCannotBeEmpty"
    and 2: "snd (Set ?c [] (AnyString ''v'') 1700000900) = ?c" by blast+
  from Set_empty_key_only [of ?c "''k''" "AnyInt 7" 1700000010 "''j''"] k j
  have 3: "fst (Set ?c ''k'' (AnyInt 7) 1700000010) = None"
    and 4: "data (snd (Set ?c ''k'' (AnyInt 7) 1700000010)) ''k''
              = Some \<lparr>Data = AnyInt 7, Expiry = 1700000010\<rparr>"
    and 5: "data (snd (Set ?c ''k'' (AnyInt 7) 1700000010)) ''j'' = data ?c ''j''" by blast+
  from 1 2 have "Set ?c [] (AnyString ''v'') 1700000900 = (Some KeyCannotBeEmpty, ?c)"
    by (simp add: prod_eq_iff)
  with 3 4 5 old show ?thesis by simp
qed

subsection \<open>C8: reads do not write\<close>

text \<open>
  C8 as stated: repeated calls of \<open>Get\<close> or \<open>Exists\<close> without a write in between
  would return the same result. The clock moves between two calls: with an entry that
  expires at 1700000000, the call in that second finds it and the call one second later,
  on the same unchanged cache, does not.
\<close>

theorem repeated_Get_counterexample:
  "fst (Get (snd (Set new_CacheInstance ''k'' (AnyString ''v'') 1700000000)) 1700000000 ''k'')
     = (AnyString ''v'', True)
   \<and> fst (Get (snd (Get (snd (Set new_CacheInstance ''k'' (AnyString ''v'') 1700000000))
                      1700000000 ''k'')) 1700000001 ''k'')
     = (AnyNil, False)
   \<and> fst (Exists (snd (Set new_CacheInstance ''k'' (AnyString ''v'') 1700000000)) 1700000000 ''k'')
     = True
   \<and> fst (Exists (snd (Exists (snd (Set new_CacheInstance ''k'' (AnyString ''v'') 1700000000))
                      1700000000 ''k'')) 1700000001 ''k'')
     = False"
  by (simp add: Get_def Exists_def Set_def new_CacheInstance_def IsExpired_def)

text \<open>
  C8, amended: \<open>Get\<close> and \<open>Exists\<close> never change the cache, also when the entry
  they look at has expired; consequently a repeated call at the same clock reading returns
  the same result, and a repeated call at another clock reading returns the same result
  exactly when the key is absent or its entry is expired at both readings or at neither.
\<close>

theorem Get_Exists_pure:
  "snd (Get c now key) = c \<and> snd (Exists c now key) = c
   \<and> fst (Get (snd (Get c now key)) now key) = fst (Get c now key)
   \<and> fst (Exists (snd (Exists c now key)) now key) = fst (Exists c now key)
   \<and> (fst (Get (snd (Get c now key)) later key) = fst (Get c now key)
        \<longleftrightarrow> (case data c key of None \<Rightarrow> True
                           | Some entry \<Rightarrow> IsExpired entry later = IsExpired entry now))
   \<and> (fst (Exists (snd (Exists c now key)) later key) = fst (Exists c now key)
        \<longleftrightarrow> (case data c key of None \<Rightarrow> True
                           | Some entry \<Rightarrow> IsExpired entry later = IsExpired entry now))"
  by (auto simp: Get_def Exists_def split: option.splits)

text \<open>An expired entry stays in the map; two reads before the expiry agree.\<close>

theorem Get_Exists_pure_witness:
  "snd (Get (snd (Set new_CacheInstance ''k'' (AnyString ''v'') 1700000000)) 1700000001 ''k'')
     = snd (Set new_CacheInstance ''k'' (AnyString ''v'') 1700000000)
   \<and> fst (Get (snd (Get (snd (Set new_CacheInstance ''k'' (AnyString ''v'') 1700000000))
                      1699999999 ''k'')) 1700000000 ''k'')
     = fst (Get (snd (Set new_CacheInstance ''k'' (AnyString ''v'') 1700000000)) 1699999999 ''k'')"
proof -
  let ?c = "snd (Set new_CacheInstance ''k'' (AnyString ''v'') 1700000000)"
  have "case data ?c ''k'' of None \<Rightarrow> True
        | Some entry \<Rightarrow> IsExpired entry 1700000000 = IsExpired entry 1699999999"
    by (simp add: Set_def IsExpired_def)
  with Get_Exists_pure [of ?c 1699999999 "''k''" 1700000000]
    Get_Exists_pure [of ?c 1700000001 "''k''" 1700000001]
  show ?thesis by blast
qed

subsection \<open>C9: the returned OTP is the stored OTP\<close>

text \<open>
  C9: whenever \<open>GenerateOTP\<close> succeeds, which it can do for a non-empty key only, the
  string it returns is the string the cache then holds under the key, with the expiry 600
  seconds after the clock reading.
\<close>

theorem GenerateOTP_returns_what_it_stored:
  "GenerateOTP svc rand_Int now c key = (Returns (otp, None), c') \<Longrightarrow>
     key \<noteq> [] \<and> data c' key = Some \<lparr>Data = AnyString otp, Expiry = now + 600\<rparr>"
  by (auto simp: GenerateOTP_def Let_def Set_def split: if_splits sum.splits)

text \<open>The length-4 service, the key "u1" and the draw 734.\<close>

theorem GenerateOTP_returns_what_it_stored_witness:
  "GenerateOTP (NewService 4) (draw 734) 1700000000 new_CacheInstance ''u1''
     = (Returns (''1734'', None),
        \<lparr>data = [''u1'' \<mapsto> \<lparr>Data = AnyString ''1734'', Expiry = 1700000600\<rparr>]\<rparr>)
   \<and> data \<lparr>data = [''u1'' \<mapsto> \<lparr>Data = AnyString ''1734'', Expiry = 1700000600\<rparr>]\<rparr> ''u1''
     = Some \<lparr>Data = AnyString ''1734'', Expiry = 1700000000 + 600\<rparr>"
proof -
  have h: "GenerateOTP (NewService 4) (draw 734) 1700000000 new_CacheInstance ''u1''
     = (Returns (''1734'', None),
        \<lparr>data = [''u1'' \<mapsto> \<lparr>Data = AnyString ''1734'', Expiry = 1700000600\<rparr>]\<rparr>)"
    by (simp add: GenerateOTP_def NewService_def Let_def min_loop.simps int64_def draw_def
        Set_def Sprintf_0d_def digits.simps digit_def new_CacheInstance_def)
  from GenerateOTP_returns_what_it_stored [OF h] h show ?thesis by simp
qed

subsection \<open>C10: the type assertion\<close>

text \<open>
  C10: when every value in the cache is a string, as every value stored by
  \<open>GenerateOTP\<close> is, \<open>ValidateOTP\<close> does not panic: for every key and every
  submitted OTP it returns a boolean and an error value.
\<close>

theorem ValidateOTP_never_panics:
  "only_strings c \<Longrightarrow> \<exists>ok err. fst (ValidateOTP svc now c key otp) = Returns (ok, err)"
proof -
  assume strings: "only_strings c"
  show ?thesis
  proof (cases "data c key")
    case None
    then show ?thesis by (auto simp: ValidateOTP_def Get_def)
  next
    case (Some entry)
    with strings obtain s where "Data entry = AnyString s"
      unfolding only_strings_def by blast
    with Some show ?thesis by (auto simp: ValidateOTP_def Get_def)
  qed
qed

text \<open>The cache that a \<open>GenerateOTP\<close> on the fresh cache leaves behind.\<close>

theorem ValidateOTP_never_panics_witness:
  "only_strings (snd (GenerateOTP (NewService 4) (draw 734) 1700000000 new_CacheInstance ''u1''))
   \<and> (\<exists>ok err. fst (ValidateOTP (NewService 4) 1700000060
          (snd (GenerateOTP (NewService 4) (draw 734) 1700000000 new_CacheInstance ''u1''))
          ''u1'' ''0000'') = Returns (ok, err))"
proof -
  have h: "only_strings
             (snd (GenerateOTP (NewService 4) (draw 734) 1700000000 new_CacheInstance ''u1''))"
    by (intro only_strings_GenerateOTP only_strings_new)
  from ValidateOTP_never_panics [OF h] h show ?thesis by blast
qed

end
